theory Spec2Isabelle
  imports Complex_Main
begin

section \<open>Data model (src/models.py)\<close>

text \<open>
  The tables of the SQLAlchemy schema, restricted to the columns that the
  checkout, cart, payment and shipping code reads or writes.  Python \<open>int\<close>
  columns are \<^typ>\<open>int\<close>.  \<open>Float\<close> columns (prices, discounts, weights and
  dimensions) are read as exact numbers of type \<^typ>\<open>real\<close>: the rounding
  of binary floating point is outside this development.  Timestamps are
  integers (any linear time scale).

  A product's primary key is the key under which the \<open>products\<close> table stores
  it, so the record has no id field of its own.
\<close>

record product =
  name :: string
  price :: real
  stock :: int
  weight_kg :: real
  height_cm :: real
  width_cm :: real
  length_cm :: real

record coupon =
  coupon_pk :: int
  code :: string
  discount_percent :: real
  expires_at :: "int option"
  is_active :: bool

record cart =
  cart_pk :: int
  user_id :: int
  coupon_id :: "int option"

record cart_item =
  cart_id :: int
  product_id :: int
  quantity :: int

record order_item =
  oi_product_id :: "int option"
  oi_quantity :: int
  price_at_purchase :: real

record order =
  order_pk :: int
  order_user_id :: int
  total_price :: real
  discount_amount :: real
  coupon_code_used :: "string option"
  status :: string
  payment_intent_id :: "string option"
  items :: "order_item list"

record product_review =
  review_product_id :: int
  review_user_id :: int
  rating :: int

record user =
  user_pk :: int
  is_superuser :: bool

text \<open>
  The committed contents of the database.  Tables that the code queries by
  primary key only (\<open>products\<close>) are maps; the others are lists of rows in
  storage order, so that \<open>.first()\<close> is \<^const>\<open>find\<close>.
\<close>

record database =
  products :: "int \<rightharpoonup> product"
  coupons :: "coupon list"
  carts :: "cart list"
  cart_items :: "cart_item list"
  orders :: "order list"
  product_reviews :: "product_review list"

text \<open>\<open>crud.get_product\<close>: the product row with the given id, if any.\<close>

definition get_product :: "database \<Rightarrow> int \<Rightarrow> product option" where
  "get_product db pid = products db pid"

text \<open>
  The ORM relationship \<open>CartItem.product\<close>: the product row that the item's
  \<open>product_id\<close> points to; \<open>None\<close> when that row is gone.
\<close>

definition product_of :: "database \<Rightarrow> cart_item \<Rightarrow> product option" where
  "product_of db item = products db (product_id item)"

text \<open>The ORM relationship \<open>Cart.items\<close>: the rows of \<open>cart_items\<close> of this cart.\<close>

definition cart_lines :: "database \<Rightarrow> cart \<Rightarrow> cart_item list" where
  "cart_lines db c = filter (\<lambda>ci. cart_id ci = cart_pk c) (cart_items db)"

text \<open>The ORM relationship \<open>Cart.coupon\<close>: the coupon row that \<open>coupon_id\<close> points to.\<close>

definition cart_coupon :: "database \<Rightarrow> cart \<Rightarrow> coupon option" where
  "cart_coupon db c =
     (case coupon_id c of
        None \<Rightarrow> None
      | Some k \<Rightarrow> find (\<lambda>cp. coupon_pk cp = k) (coupons db))"

text \<open>
  A row returned by \<open>.first()\<close> and then mutated in place: the first row that
  satisfies the filter is replaced, every other row stays.
\<close>

fun update_first :: "('a \<Rightarrow> bool) \<Rightarrow> ('a \<Rightarrow> 'a) \<Rightarrow> 'a list \<Rightarrow> 'a list" where
  "update_first P f [] = []"
| "update_first P f (x # xs) = (if P x then f x # xs else x # update_first P f xs)"

section \<open>Shipping quote: the virtual package (src/services/shipping_service.py)\<close>







section \<open>Coupons and carts (src/crud.py)\<close>

text \<open>
  \<open>get_valid_coupon_by_code(db, code)\<close>.  The source reads the clock
  (\<open>datetime.now\<close>); here the current time is the argument \<open>now\<close>.  The three
  filters of the query are the conjuncts below, and \<open>.first()\<close> takes the
  first row that passes them.
\<close>

definition get_valid_coupon_by_code :: "int \<Rightarrow> database \<Rightarrow> string \<Rightarrow> coupon option" where
  "get_valid_coupon_by_code now db cd =
     find (\<lambda>cp. code cp = cd \<and> is_active cp \<and>
                (case expires_at cp of None \<Rightarrow> True | Some t \<Rightarrow> now < t))
          (coupons db)"

definition get_cart_by_user_id :: "database \<Rightarrow> int \<Rightarrow> cart option" where
  "get_cart_by_user_id db uid = find (\<lambda>c. user_id c = uid) (carts db)"

text \<open>The request body \<open>schemas.CartItemCreate\<close>.\<close>

record cart_item_create =
  item_product_id :: int
  item_quantity :: int

text \<open>
  \<open>add_item_to_cart(db, cart_id, item)\<close> returns the cart line it wrote, or
  \<open>None\<close>, together with the database after the call.  The commit at the end
  of the source is taken to succeed.
\<close>

definition add_item_to_cart ::
  "database \<Rightarrow> int \<Rightarrow> cart_item_create \<Rightarrow> cart_item option \<times> database" where
  "add_item_to_cart db cid item =
     (case get_product db (item_product_id item) of
        None \<Rightarrow> (None, db)
      | Some product \<Rightarrow>
          let same = (\<lambda>ci. cart_id ci = cid \<and> product_id ci = item_product_id item);
              db_cart_item = find same (cart_items db);
              current_quantity = (case db_cart_item of Some ci \<Rightarrow> quantity ci | None \<Rightarrow> 0);
              requested_quantity = current_quantity + item_quantity item
          in if stock product < requested_quantity then (None, db)
             else
               (case db_cart_item of
                  Some ci \<Rightarrow>
                    (Some (ci\<lparr>quantity := requested_quantity\<rparr>),
                     db\<lparr>cart_items :=
                          update_first same (\<lambda>ci. ci\<lparr>quantity := requested_quantity\<rparr>)
                            (cart_items db)\<rparr>)
                | None \<Rightarrow>
                    let new_item = \<lparr>cart_id = cid, product_id = item_product_id item,
                                    quantity = item_quantity item\<rparr>
                    in (Some new_item, db\<lparr>cart_items := cart_items db @ [new_item]\<rparr>)))"

text \<open>The invariant of the cart aggregate: at most one line per product per cart.\<close>

definition one_line_per_product :: "database \<Rightarrow> bool" where
  "one_line_per_product db = distinct (map (\<lambda>ci. (cart_id ci, product_id ci)) (cart_items db))"

section \<open>Deleting a product (src/crud.py, src/models.py)\<close>



section \<open>Checkout (src/crud.py)\<close>

text \<open>
  The messages of \<open>OrderCreationError\<close>, one constructor per message of the
  source: "Carrinho vazio. ..." (\<open>EmptyCart\<close>), "O cupom aplicado nao e mais
  valido." (\<open>CouponNoLongerValid\<close>), "Produto com ID ... nao existe mais."
  (\<open>ProductGone\<close>, with the id), "Estoque insuficiente para o produto '...'."
  (\<open>InsufficientStock\<close>, with the product's name) and "Ocorreu um erro
  inesperado: ..." (\<open>UnexpectedError\<close>, with the text of the exception).  The
  second argument of \<open>OrderCreationError\<close> is its \<open>status_code\<close>.
\<close>

datatype order_error_message =
    EmptyCart
  | CouponNoLongerValid
  | ProductGone int
  | InsufficientStock string
  | UnexpectedError string

datatype order_creation_error = OrderCreationError order_error_message int

text \<open>What \<open>db.commit()\<close> does: it succeeds, or it raises an exception with a text.\<close>

datatype commit_result = Committed | CommitFailed string

text \<open>
  The \<open>for item in cart.items\<close> loop of \<open>create_order_from_cart\<close>.  \<open>ps\<close> is the
  products table as the session sees it (earlier decrements included) and
  \<open>acc\<close> is \<open>order_items_to_create\<close>.  A raise inside the loop is \<open>Inl\<close>.
\<close>

fun order_items_loop ::
  "(int \<rightharpoonup> product) \<Rightarrow> cart_item list \<Rightarrow> order_item list \<Rightarrow>
   order_creation_error + ((int \<rightharpoonup> product) \<times> order_item list)" where
  "order_items_loop ps [] acc = Inr (ps, acc)"
| "order_items_loop ps (item # rest) acc =
     (case ps (product_id item) of
        None \<Rightarrow> Inl (OrderCreationError (ProductGone (product_id item)) 400)
      | Some product \<Rightarrow>
          if stock product < quantity item
          then Inl (OrderCreationError (InsufficientStock (name product)) 400)
          else order_items_loop
                 (ps(product_id item \<mapsto> product\<lparr>stock := stock product - quantity item\<rparr>))
                 rest
                 (acc @ [\<lparr>oi_product_id = Some (product_id item),
                          oi_quantity = quantity item,
                          price_at_purchase = price product\<rparr>]))"

text \<open>The primary key that the database gives a new order row.\<close>

definition next_order_pk :: "order list \<Rightarrow> int" where
  "next_order_pk os = fold max (map order_pk os) 0 + 1"

text \<open>
  \<open>sum(item.product.price * item.quantity for item in cart.items if item.product)\<close>
\<close>

definition cart_subtotal :: "database \<Rightarrow> cart_item list \<Rightarrow> real" where
  "cart_subtotal db lines =
     sum_list (List.map_filter
       (\<lambda>item. map_option (\<lambda>p. price p * of_int (quantity item)) (product_of db item)) lines)"

text \<open>
  The \<open>try\<close> block of \<open>create_order_from_cart\<close> with its handler.  Every
  failure path goes through \<open>db.rollback()\<close>, which discards the session's
  pending changes: the database returned is the one the call started from.
\<close>

definition place_order ::
  "commit_result \<Rightarrow> database \<Rightarrow> user \<Rightarrow> cart \<Rightarrow> real \<Rightarrow> real \<Rightarrow> string option \<Rightarrow>
   (order_creation_error + order) \<times> database" where
  "place_order commit db u c total_price' discount_amount' coupon_code_used' =
     (case order_items_loop (products db) (cart_lines db c) [] of
        Inl e \<Rightarrow> (Inl e, db)
      | Inr (ps, order_items_to_create) \<Rightarrow>
          (case commit of
             CommitFailed msg \<Rightarrow> (Inl (OrderCreationError (UnexpectedError msg) 500), db)
           | Committed \<Rightarrow>
               let new_order = \<lparr>order_pk = next_order_pk (orders db),
                                 order_user_id = user_pk u,
                                 total_price = total_price',
                                 discount_amount = discount_amount',
                                 coupon_code_used = coupon_code_used',
                                 status = ''pending_payment'',
                                 payment_intent_id = None,
                                 items = order_items_to_create\<rparr>
               in (Inr new_order,
                   db\<lparr>products := ps,
                      orders := orders db @ [new_order],
                      carts := update_first (\<lambda>c'. user_id c' = user_pk u)
                                 (\<lambda>c'. c'\<lparr>coupon_id := None\<rparr>) (carts db),
                      cart_items := filter (\<lambda>ci. cart_id ci \<noteq> cart_pk c) (cart_items db)\<rparr>)))"

text \<open>
  \<open>create_order_from_cart(db, user)\<close>: the result (\<open>Inl\<close> is the
  \<open>OrderCreationError\<close> raised) and the database after the call.
\<close>

definition create_order_from_cart ::
  "int \<Rightarrow> commit_result \<Rightarrow> database \<Rightarrow> user \<Rightarrow> (order_creation_error + order) \<times> database" where
  "create_order_from_cart now commit db u =
     (case get_cart_by_user_id db (user_pk u) of
        None \<Rightarrow> (Inl (OrderCreationError EmptyCart 400), db)
      | Some c \<Rightarrow>
          if cart_lines db c = [] then (Inl (OrderCreationError EmptyCart 400), db)
          else
            let subtotal = cart_subtotal db (cart_lines db c)
            in (case cart_coupon db c of
                  None \<Rightarrow> place_order commit db u c (subtotal - 0) 0 None
                | Some cp \<Rightarrow>
                    (case get_valid_coupon_by_code now db (code cp) of
                       None \<Rightarrow> (Inl (OrderCreationError CouponNoLongerValid 400), db)
                     | Some valid_coupon \<Rightarrow>
                         let discount_amount' = subtotal * (discount_percent valid_coupon / 100)
                         in place_order commit db u c (subtotal - discount_amount')
                              discount_amount' (Some (code valid_coupon)))))"

text \<open>The stock of product \<open>pid\<close> as stored; 0 when the table has no such row.\<close>

definition stock_of :: "database \<Rightarrow> int \<Rightarrow> int" where
  "stock_of db pid = (case products db pid of None \<Rightarrow> 0 | Some p \<Rightarrow> stock p)"

section \<open>Payments (src/routers/payments.py)\<close>

datatype http_exception = HTTPException int string

definition get_order_by_id :: "database \<Rightarrow> int \<Rightarrow> order option" where
  "get_order_by_id db oid = find (\<lambda>ord. order_pk ord = oid) (orders db)"

text \<open>
  What \<open>stripe.checkout.Session.create\<close> does: it raises a \<open>StripeError\<close> (with
  the text of \<open>e.user_message or str(e)\<close>), raises something else, or returns a
  session, of which the code reads \<open>url\<close> and \<open>payment_intent\<close> (\<open>None\<close> below
  when the latter is not a string).
\<close>

datatype stripe_outcome =
    StripeError string
  | OtherError string
  | StripeSession "string option" "string option"

text \<open>Python's \<open>int(x)\<close> on a number: truncation towards zero.\<close>

definition py_trunc :: "real \<Rightarrow> int" where
  "py_trunc x = (if 0 \<le> x then \<lfloor>x\<rfloor> else \<lceil>x\<rceil>)"

text \<open>One entry of \<open>line_items\<close>: product name, \<open>unit_amount\<close>, quantity.\<close>

definition line_items :: "database \<Rightarrow> order \<Rightarrow> (string \<times> int \<times> int) list" where
  "line_items db ord =
     map (\<lambda>item.
            ((case (case oi_product_id item of None \<Rightarrow> None | Some pid \<Rightarrow> products db pid) of
                Some p \<Rightarrow> name p
              | None \<Rightarrow> ''Produto Removido''),
             py_trunc (price_at_purchase item * 100),
             oi_quantity item))
         (items ord)"

text \<open>
  \<open>create_checkout_session(order_id, db)\<close>.  \<open>stripe_create\<close> is the external
  call, applied to the line items.  The \<open>HTTPException\<close> raised inside the
  \<open>try\<close> for a missing URL is itself caught by \<open>except Exception\<close> and
  re-raised with the text of the original (\<open>str\<close> of a \<open>HTTPException\<close> is its
  status code, a colon and its detail).  A failed commit leaves the stored
  order as it was.
\<close>

definition create_checkout_session ::
  "((string \<times> int \<times> int) list \<Rightarrow> stripe_outcome) \<Rightarrow> commit_result \<Rightarrow> database \<Rightarrow> int \<Rightarrow>
   (http_exception + string) \<times> database" where
  "create_checkout_session stripe_create commit db oid =
     (case get_order_by_id db oid of
        None \<Rightarrow> (Inl (HTTPException 404 ''Order not found''), db)
      | Some ord \<Rightarrow>
          if status ord = ''paid''
          then (Inl (HTTPException 400 ''Order has already been paid.''), db)
          else
            (case stripe_create (line_items db ord) of
               StripeError msg \<Rightarrow> (Inl (HTTPException 400 (''Stripe error: '' @ msg)), db)
             | OtherError msg \<Rightarrow>
                 (Inl (HTTPException 500 (''An unexpected error occurred: '' @ msg)), db)
             | StripeSession url payment_intent \<Rightarrow>
                 (case url of
                    None \<Rightarrow>
                      (Inl (HTTPException 500
                         (''An unexpected error occurred: '' @
                          ''500: Stripe did not return a checkout URL.'')), db)
                  | Some u \<Rightarrow>
                      if u = [] then
                        (Inl (HTTPException 500
                           (''An unexpected error occurred: '' @
                            ''500: Stripe did not return a checkout URL.'')), db)
                      else
                        (case payment_intent of
                           None \<Rightarrow> (Inr u, db)
                         | Some pi_id \<Rightarrow>
                             (case commit of
                                CommitFailed msg \<Rightarrow>
                                  (Inl (HTTPException 500
                                     (''An unexpected error occurred: '' @ msg)), db)
                              | Committed \<Rightarrow>
                                  (Inr u,
                                   db\<lparr>orders :=
                                        update_first (\<lambda>ord. order_pk ord = oid)
                                          (\<lambda>ord. ord\<lparr>payment_intent_id := Some pi_id\<rparr>)
                                          (orders db)\<rparr>))))))"

text \<open>
  What \<open>stripe.Webhook.construct_event\<close> does with the payload and the
  signature header: \<open>ValueError\<close>, \<open>SignatureVerificationError\<close>, or the verified
  event.  Of the event the handler reads the type, \<open>metadata.order_id\<close>,
  \<open>payment_status\<close> and \<open>payment_intent\<close> of the session object.
\<close>

record stripe_event =
  event_type :: string
  metadata_order_id :: "string option"
  payment_status :: "string option"
  payment_intent :: "string option"








section \<open>A sample database\<close>

text \<open>
  A small shop used to run the functions on concrete inputs.  User 7 has two
  units of product 1 in the cart, with the coupon PEDIDO20 attached; user 8
  has one unit of product 1 and five of product 2, of which one is in stock,
  and a coupon that expires at time 50; user 9 has that coupon and an empty
  cart.  Order 1 has been shipped, order 2 awaits payment, order 3 is paid.
\<close>

definition shop :: database where
  "shop =
     \<lparr>products =
        [1 \<mapsto> \<lparr>name = ''Camiseta'', price = 100, stock = 10, weight_kg = 3 / 10,
                 height_cm = 4, width_cm = 12, length_cm = 18\<rparr>,
         2 \<mapsto> \<lparr>name = ''Caneca'', price = 51 / 2, stock = 1, weight_kg = 1 / 2,
                 height_cm = 10, width_cm = 9, length_cm = 20\<rparr>],
      coupons =
        [\<lparr>coupon_pk = 1, code = ''PEDIDO20'', discount_percent = 20,
          expires_at = None, is_active = True\<rparr>,
         \<lparr>coupon_pk = 2, code = ''NATAL10'', discount_percent = 10,
          expires_at = Some 50, is_active = True\<rparr>],
      carts =
        [\<lparr>cart_pk = 1, user_id = 7, coupon_id = Some 1\<rparr>,
         \<lparr>cart_pk = 2, user_id = 8, coupon_id = Some 2\<rparr>,
         \<lparr>cart_pk = 3, user_id = 9, coupon_id = Some 2\<rparr>],
      cart_items =
        [\<lparr>cart_id = 1, product_id = 1, quantity = 2\<rparr>,
         \<lparr>cart_id = 2, product_id = 1, quantity = 1\<rparr>,
         \<lparr>cart_id = 2, product_id = 2, quantity = 5\<rparr>],
      orders =
        [\<lparr>order_pk = 1, order_user_id = 7, total_price = 100, discount_amount = 0,
          coupon_code_used = None, status = ''shipped'', payment_intent_id = Some ''pi_1'',
          items = [\<lparr>oi_product_id = Some 1, oi_quantity = 1, price_at_purchase = 100\<rparr>]\<rparr>,
         \<lparr>order_pk = 2, order_user_id = 8, total_price = 51 / 2, discount_amount = 0,
          coupon_code_used = None, status = ''pending_payment'', payment_intent_id = None,
          items = [\<lparr>oi_product_id = Some 2, oi_quantity = 1, price_at_purchase = 51 / 2\<rparr>]\<rparr>,
         \<lparr>order_pk = 3, order_user_id = 8, total_price = 51, discount_amount = 0,
          coupon_code_used = None, status = ''paid'', payment_intent_id = Some ''pi_3'',
          items = [\<lparr>oi_product_id = Some 2, oi_quantity = 2, price_at_purchase = 51 / 2\<rparr>]\<rparr>],
      product_reviews =
        [\<lparr>review_product_id = 1, review_user_id = 7, rating = 5\<rparr>,
         \<lparr>review_product_id = 2, review_user_id = 8, rating = 4\<rparr>]\<rparr>"

definition user7 :: user where "user7 = \<lparr>user_pk = 7, is_superuser = False\<rparr>"
definition user8 :: user where "user8 = \<lparr>user_pk = 8, is_superuser = False\<rparr>"
definition user9 :: user where "user9 = \<lparr>user_pk = 9, is_superuser = False\<rparr>"

text \<open>The order that the checkout of user 7 creates at a time when the coupon is valid.\<close>

definition order7 :: order where
  "order7 = \<lparr>order_pk = 4, order_user_id = 7, total_price = 160, discount_amount = 40,
        coupon_code_used = Some ''PEDIDO20'', status = ''pending_payment'', payment_intent_id = None,
        items = [\<lparr>oi_product_id = Some 1, oi_quantity = 2, price_at_purchase = 100\<rparr>]\<rparr>"


definition stripe_ok :: "(string \<times> int \<times> int) list \<Rightarrow> stripe_outcome" where
  "stripe_ok ls = StripeSession (Some ''https://checkout.stripe.com/pay/cs_test'') (Some ''pi_test'')"

section \<open>Facts used to run the sample database\<close>

lemmas shop_eval = shop_def user7_def user8_def user9_def get_cart_by_user_id_def cart_lines_def
  cart_coupon_def get_valid_coupon_by_code_def place_order_def cart_subtotal_def product_of_def
  create_order_from_cart_def


section \<open>The virtual package\<close>







section \<open>Checkout: failure leaves the database as it was\<close>

lemma order_items_loop_fails:
  assumes "item \<in> set its"
    and "case ps (product_id item) of None \<Rightarrow> True | Some p \<Rightarrow> stock p < quantity item"
    and "\<forall>i \<in> set its. 0 \<le> quantity i"
  shows "\<exists>e. order_items_loop ps its acc = Inl e"
  using assms
proof (induction its arbitrary: ps acc)
  case Nil
  then show ?case by simp
next
  case (Cons x rest)
  show ?case
  proof (cases "ps (product_id x)")
    case None
    then show ?thesis by simp
  next
    case (Some px)
    show ?thesis
    proof (cases "stock px < quantity x")
      case True
      with Some show ?thesis by simp
    next
      case False
      let ?ps' = "ps(product_id x \<mapsto> px\<lparr>stock := stock px - quantity x\<rparr>)"
      have neq: "item \<noteq> x"
        using Cons.prems(2) Some False by auto
      then have mem: "item \<in> set rest" using Cons.prems(1) by simp
      have qx: "0 \<le> quantity x" using Cons.prems(3) by simp
      have rest_q: "\<forall>i \<in> set rest. 0 \<le> quantity i" using Cons.prems(3) by simp
      have short: "case ?ps' (product_id item) of None \<Rightarrow> True | Some p \<Rightarrow> stock p < quantity item"
        using Cons.prems(2) Some qx by (auto split: option.splits)
      have "\<exists>e. order_items_loop ?ps' rest
              (acc @ [\<lparr>oi_product_id = Some (product_id x), oi_quantity = quantity x,
                       price_at_purchase = price px\<rparr>]) = Inl e"
        using Cons.IH [where ps = "?ps'", OF mem short rest_q] .
      with Some False show ?thesis by simp
    qed
  qed
qed

lemma place_order_error_keeps_db:
  "place_order commit db u c t d cu = (Inl e, db') \<Longrightarrow> db' = db"
  by (auto simp: place_order_def Let_def split: sum.splits commit_result.splits prod.splits)

lemma create_order_error_keeps_db:
  "create_order_from_cart now commit db u = (Inl e, db') \<Longrightarrow> db' = db"
  by (auto simp: create_order_from_cart_def Let_def dest: place_order_error_keeps_db
      split: option.splits if_splits)

lemma place_order_fails:
  assumes "\<exists>e. order_items_loop (products db) (cart_lines db c) [] = Inl e"
  shows "\<exists>e. place_order commit db u c t d cu = (Inl e, db)"
  using assms by (auto simp: place_order_def)

text \<open>
  C1.  If some line of the user's cart asks for more than the stock of its
  product, or its product no longer exists, \<open>create_order_from_cart\<close> raises
  an \<open>OrderCreationError\<close> and the database after the call is the database
  before it: no order row, no stock decrement, the cart's lines and coupon
  as they were.  Cart quantities are those of the data model (never
  negative).
\<close>

theorem checkout_short_stock_fails:
  assumes cart: "get_cart_by_user_id db (user_pk u) = Some c"
    and line: "item \<in> set (cart_lines db c)"
    and short: "case product_of db item of None \<Rightarrow> True | Some p \<Rightarrow> stock p < quantity item"
    and quantities: "\<forall>i \<in> set (cart_lines db c). 0 \<le> quantity i"
  shows "\<exists>e. create_order_from_cart now commit db u = (Inl e, db)"
proof -
  have nonempty: "cart_lines db c \<noteq> []" using line by auto
  have "\<exists>e. order_items_loop (products db) (cart_lines db c) [] = Inl e"
    using order_items_loop_fails [of item "cart_lines db c" "products db"] line quantities short
    by (simp add: product_of_def)
  then have po: "\<exists>e. place_order commit db u c t d cu = (Inl e, db)" for t d cu
    by (rule place_order_fails)
  show ?thesis
    unfolding create_order_from_cart_def using cart nonempty po
    by (simp add: Let_def split: option.splits)
qed

theorem checkout_short_stock_fails_witness:
  "create_order_from_cart 10 Committed shop user8 =
     (Inl (OrderCreationError (InsufficientStock ''Caneca'') 400), shop)"
proof -
  have c: "get_cart_by_user_id shop (user_pk user8) = Some \<lparr>cart_pk = 2, user_id = 8, coupon_id = Some 2\<rparr>"
    by (simp add: shop_def user8_def get_cart_by_user_id_def)
  have l: "\<lparr>cart_id = 2, product_id = 2, quantity = 5\<rparr> \<in> set (cart_lines shop \<lparr>cart_pk = 2, user_id = 8, coupon_id = Some 2\<rparr>)"
    by (simp add: shop_def cart_lines_def)
  have s: "case product_of shop \<lparr>cart_id = 2, product_id = 2, quantity = 5\<rparr> of None \<Rightarrow> True
           | Some p \<Rightarrow> stock p < quantity \<lparr>cart_id = 2, product_id = 2, quantity = 5\<rparr>"
    by (simp add: shop_def product_of_def)
  have q: "\<forall>i \<in> set (cart_lines shop \<lparr>cart_pk = 2, user_id = 8, coupon_id = Some 2\<rparr>). 0 \<le> quantity i"
    by (simp add: shop_def cart_lines_def)
  obtain e where e: "create_order_from_cart 10 Committed shop user8 = (Inl e, shop)"
    using checkout_short_stock_fails [OF c l s q] by blast
  have "fst (create_order_from_cart 10 Committed shop user8) =
      Inl (OrderCreationError (InsufficientStock ''Caneca'') 400)"
    by (simp add: shop_eval)
  with e show ?thesis by simp
qed

section \<open>Checkout: stock accounting\<close>

lemma order_items_loop_items:
  "order_items_loop ps its acc = Inr (ps', ois) \<Longrightarrow>
   ois = acc @ map (\<lambda>i. \<lparr>oi_product_id = Some (product_id i), oi_quantity = quantity i,
                          price_at_purchase = price (the (ps (product_id i)))\<rparr>) its"
proof (induction its arbitrary: ps acc)
  case Nil
  then show ?case by simp
next
  case (Cons x rest)
  from Cons.prems obtain px where px: "ps (product_id x) = Some px" and ok: "\<not> stock px < quantity x"
    and rest: "order_items_loop (ps(product_id x \<mapsto> px\<lparr>stock := stock px - quantity x\<rparr>)) rest
        (acc @ [\<lparr>oi_product_id = Some (product_id x), oi_quantity = quantity x,
                 price_at_purchase = price px\<rparr>]) = Inr (ps', ois)"
    by (auto split: option.splits if_splits)
  have "price (the ((ps(product_id x \<mapsto> px\<lparr>stock := stock px - quantity x\<rparr>)) k)) = price (the (ps k))" for k
    using px by simp
  then show ?case using Cons.IH [OF rest] px by simp
qed

lemma order_items_loop_products:
  "order_items_loop ps its acc = Inr (ps', ois) \<Longrightarrow>
   ps' pid = map_option
     (\<lambda>p. p\<lparr>stock := stock p - (\<Sum>i\<leftarrow>its. if product_id i = pid then quantity i else 0)\<rparr>) (ps pid)"
proof (induction its arbitrary: ps acc)
  case Nil
  then show ?case by (cases "ps pid") simp_all
next
  case (Cons x rest)
  from Cons.prems obtain px where px: "ps (product_id x) = Some px" and ok: "\<not> stock px < quantity x"
    and rest: "order_items_loop (ps(product_id x \<mapsto> px\<lparr>stock := stock px - quantity x\<rparr>)) rest
        (acc @ [\<lparr>oi_product_id = Some (product_id x), oi_quantity = quantity x,
                 price_at_purchase = price px\<rparr>]) = Inr (ps', ois)"
    by (auto split: option.splits if_splits)
  show ?case
  proof (cases "pid = product_id x")
    case True
    then show ?thesis using Cons.IH [OF rest] px by (simp add: algebra_simps)
  next
    case False
    then have "(if product_id x = pid then quantity x else 0) = 0" by auto
    then show ?thesis using Cons.IH [OF rest] False by simp
  qed
qed

lemma order_items_loop_exists:
  "order_items_loop ps its acc = Inr (ps', ois) \<Longrightarrow> i \<in> set its \<Longrightarrow> ps (product_id i) \<noteq> None"
proof (induction its arbitrary: ps acc)
  case Nil
  then show ?case by simp
next
  case (Cons x rest)
  from Cons.prems(1) obtain px where px: "ps (product_id x) = Some px"
    and rest: "order_items_loop (ps(product_id x \<mapsto> px\<lparr>stock := stock px - quantity x\<rparr>)) rest
        (acc @ [\<lparr>oi_product_id = Some (product_id x), oi_quantity = quantity x,
                 price_at_purchase = price px\<rparr>]) = Inr (ps', ois)"
    by (auto split: option.splits if_splits)
  show ?case
  proof (cases "i = x")
    case True
    then show ?thesis using px by simp
  next
    case False
    then have "i \<in> set rest" using Cons.prems(2) by simp
    from Cons.IH [OF rest this] show ?thesis using px by (auto split: if_splits)
  qed
qed

lemma order_items_loop_nonneg:
  "order_items_loop ps its acc = Inr (ps', ois) \<Longrightarrow> i \<in> set its \<Longrightarrow>
   \<exists>p'. ps' (product_id i) = Some p' \<and> 0 \<le> stock p'"
proof (induction its arbitrary: ps acc i)
  case Nil
  then show ?case by simp
next
  case (Cons x rest)
  let ?ps1 = "ps(product_id x \<mapsto> the (ps (product_id x))\<lparr>stock := stock (the (ps (product_id x))) - quantity x\<rparr>)"
  from Cons.prems(1) obtain px where px: "ps (product_id x) = Some px" and ok: "\<not> stock px < quantity x"
    and rest: "order_items_loop (ps(product_id x \<mapsto> px\<lparr>stock := stock px - quantity x\<rparr>)) rest
        (acc @ [\<lparr>oi_product_id = Some (product_id x), oi_quantity = quantity x,
                 price_at_purchase = price px\<rparr>]) = Inr (ps', ois)"
    by (auto split: option.splits if_splits)
  show ?case
  proof (cases "\<exists>j \<in> set rest. product_id j = product_id i")
    case True
    then obtain j where j: "j \<in> set rest" "product_id j = product_id i" by blast
    from Cons.IH [OF rest j(1)] j(2) show ?thesis by simp
  next
    case False
    then have zero: "(\<Sum>j\<leftarrow>rest. if product_id j = product_id i then quantity j else 0) = 0"
      by (induction rest) auto
    from False Cons.prems(2) have ix: "i = x" by auto
    have "ps' (product_id i) = Some (px\<lparr>stock := stock px - quantity x\<rparr>)"
      using order_items_loop_products [OF rest, of "product_id i"] zero ix by simp
    then show ?thesis using ok by simp
  qed
qed

lemma place_order_success:
  assumes "place_order commit db u c t d cu = (Inr ord, db')"
  shows "order_items_loop (products db) (cart_lines db c) [] = Inr (products db', items ord) \<and>
         total_price ord = t \<and> discount_amount ord = d \<and> coupon_code_used ord = cu"
  using assms
  by (auto simp: place_order_def Let_def split: sum.splits commit_result.splits prod.splits)

lemma create_order_success_loop:
  assumes "create_order_from_cart now commit db u = (Inr ord, db')"
  shows "\<exists>c. get_cart_by_user_id db (user_pk u) = Some c \<and> cart_lines db c \<noteq> [] \<and>
             order_items_loop (products db) (cart_lines db c) [] = Inr (products db', items ord)"
  using assms
  by (auto simp: create_order_from_cart_def Let_def dest: place_order_success
      split: option.splits if_splits)

lemma sum_over_keys:
  fixes q :: "'a \<Rightarrow> int"
  assumes "finite P" and "\<forall>x \<in> set xs. key x \<in> P"
  shows "(\<Sum>k \<in> P. \<Sum>x\<leftarrow>xs. if key x = k then q x else 0) = (\<Sum>x\<leftarrow>xs. q x)"
  using assms(2)
proof (induction xs)
  case Nil
  show ?case by simp
next
  case (Cons x xs)
  have "(\<Sum>k \<in> P. if key x = k then q x else 0) = q x"
    using assms(1) Cons.prems by simp
  then show ?case using Cons by (simp add: sum.distrib)
qed

text \<open>
  C2.  After a successful \<open>create_order_from_cart\<close>, the stock of every
  product has gone down by exactly the sum of the quantities of the order's
  items for that product, so the stock removed over the products the order
  refers to is the sum of the order-item quantities; every product the order
  refers to ends with a stock that is not negative (the check
  \<open>stock \<ge> quantity\<close> precedes each decrement), and if no stock was negative
  before the call none is after it.
\<close>

theorem checkout_stock_accounting:
  assumes "create_order_from_cart now commit db u = (Inr ord, db')"
  shows "(\<forall>pid. products db' pid =
            map_option (\<lambda>p. p\<lparr>stock := stock p -
               (\<Sum>oi\<leftarrow>items ord. if oi_product_id oi = Some pid then oi_quantity oi else 0)\<rparr>)
              (products db pid)) \<and>
         (\<Sum>pid \<in> {pid. Some pid \<in> oi_product_id ` set (items ord)}. stock_of db pid - stock_of db' pid) =
            (\<Sum>oi\<leftarrow>items ord. oi_quantity oi) \<and>
         (\<forall>oi \<in> set (items ord). \<exists>pid p'. oi_product_id oi = Some pid \<and>
              products db' pid = Some p' \<and> 0 \<le> stock p') \<and>
         ((\<forall>pid p. products db pid = Some p \<longrightarrow> 0 \<le> stock p) \<longrightarrow>
          (\<forall>pid p. products db' pid = Some p \<longrightarrow> 0 \<le> stock p))"
proof -
  from create_order_success_loop [OF assms] obtain c where
    loop: "order_items_loop (products db) (cart_lines db c) [] = Inr (products db', items ord)"
    by blast
  define its where "its = cart_lines db c"
  have items: "items ord = map (\<lambda>i. \<lparr>oi_product_id = Some (product_id i), oi_quantity = quantity i,
                          price_at_purchase = price (the (products db (product_id i)))\<rparr>) its"
    using order_items_loop_items [OF loop] by (simp add: its_def)
  have sums: "(\<Sum>oi\<leftarrow>items ord. if oi_product_id oi = Some pid then oi_quantity oi else 0) =
              (\<Sum>i\<leftarrow>its. if product_id i = pid then quantity i else 0)" for pid
    by (simp add: items comp_def cong: if_cong)
  have A: "products db' pid =
            map_option (\<lambda>p. p\<lparr>stock := stock p -
               (\<Sum>oi\<leftarrow>items ord. if oi_product_id oi = Some pid then oi_quantity oi else 0)\<rparr>)
              (products db pid)" for pid
    unfolding sums using order_items_loop_products [OF loop] by (simp add: its_def)
  have C: "\<exists>pid p'. oi_product_id oi = Some pid \<and> products db' pid = Some p' \<and> 0 \<le> stock p'"
    if "oi \<in> set (items ord)" for oi
  proof -
    from that obtain i where i: "i \<in> set its" "oi_product_id oi = Some (product_id i)"
      by (auto simp: items)
    from order_items_loop_nonneg [OF loop] i(1) show ?thesis using i(2) by (auto simp: its_def)
  qed
  have exists: "products db (product_id i) \<noteq> None" if "i \<in> set its" for i
    using order_items_loop_exists [OF loop] that by (simp add: its_def)
  let ?P = "{pid. Some pid \<in> oi_product_id ` set (items ord)}"
  have P: "?P = product_id ` set its"
    by (auto simp: items image_iff)
  have diff: "stock_of db pid - stock_of db' pid =
      (\<Sum>i\<leftarrow>its. if product_id i = pid then quantity i else 0)" if "pid \<in> ?P" for pid
  proof -
    from that obtain i where "i \<in> set its" "product_id i = pid" unfolding P by auto
    then obtain p where p: "products db pid = Some p" using exists by auto
    show ?thesis using A [of pid] p by (simp add: stock_of_def sums)
  qed
  have "(\<Sum>pid \<in> ?P. stock_of db pid - stock_of db' pid) =
        (\<Sum>pid \<in> ?P. \<Sum>i\<leftarrow>its. if product_id i = pid then quantity i else 0)"
    by (rule sum.cong) (simp_all add: diff)
  also have "\<dots> = (\<Sum>i\<leftarrow>its. quantity i)"
    by (rule sum_over_keys) (simp_all add: P)
  also have "\<dots> = (\<Sum>oi\<leftarrow>items ord. oi_quantity oi)"
    by (simp add: items comp_def)
  finally have B: "(\<Sum>pid \<in> ?P. stock_of db pid - stock_of db' pid) = (\<Sum>oi\<leftarrow>items ord. oi_quantity oi)" .
  have D: "0 \<le> stock p'" if inv: "\<forall>pid p. products db pid = Some p \<longrightarrow> 0 \<le> stock p"
    and p': "products db' pid = Some p'" for pid p'
  proof (cases "pid \<in> product_id ` set its")
    case True
    then obtain i where "i \<in> set its" "product_id i = pid" by auto
    with order_items_loop_nonneg [OF loop, of i] p' show ?thesis by (auto simp: its_def)
  next
    case False
    then have "(\<Sum>i\<leftarrow>its. if product_id i = pid then quantity i else 0) = 0"
      by (induction its) auto
    with A [of pid] p' inv show ?thesis unfolding sums by (cases "products db pid") auto
  qed
  from A B C D show ?thesis by blast
qed

lemma checkout_user7:
  "create_order_from_cart 10 Committed shop user7 =
     (Inr order7, snd (create_order_from_cart 10 Committed shop user7))"
proof -
  have "fst (create_order_from_cart 10 Committed shop user7) = Inr order7"
    by (simp add: shop_eval next_order_pk_def Let_def order7_def)
  then show ?thesis by (simp add: prod_eq_iff)
qed

theorem checkout_stock_accounting_witness:
  "\<exists>ord db'. create_order_from_cart 10 Committed shop user7 = (Inr ord, db') \<and>
     (\<Sum>oi\<leftarrow>items ord. oi_quantity oi) = 2 \<and>
     stock_of shop 1 = 10 \<and> stock_of db' 1 = 8 \<and> stock_of shop 2 = 1 \<and> stock_of db' 2 = 1"
proof -
  let ?db' = "snd (create_order_from_cart 10 Committed shop user7)"
  from checkout_stock_accounting [OF checkout_user7]
  have "\<forall>pid. products ?db' pid =
            map_option (\<lambda>p. p\<lparr>stock := stock p -
               (\<Sum>oi\<leftarrow>items order7. if oi_product_id oi = Some pid then oi_quantity oi else 0)\<rparr>)
              (products shop pid)"
    by (rule conjunct1)
  then have "stock_of ?db' 1 = 8" and "stock_of ?db' 2 = 1"
    by (simp_all add: stock_of_def shop_def order7_def)
  moreover have "stock_of shop 1 = 10" and "stock_of shop 2 = 1"
    by (simp_all add: stock_of_def shop_def)
  moreover have "(\<Sum>oi\<leftarrow>items order7. oi_quantity oi) = 2"
    by (simp add: order7_def)
  ultimately show ?thesis using checkout_user7 by blast
qed


section \<open>Checkout: totals and coupons\<close>

lemma find_SomeD: "find P xs = Some x \<Longrightarrow> x \<in> set xs \<and> P x"
  by (induction xs) (auto split: if_splits)


lemma unique_code:
  assumes "distinct (map code cs)" and "a \<in> set cs" and "b \<in> set cs" and "code a = code b"
  shows "a = b"
  using assms by (meson distinct_map inj_onD)

lemma valid_coupon_iff:
  "(\<exists>v. get_valid_coupon_by_code now db cd = Some v) \<longleftrightarrow>
   (\<exists>cp \<in> set (coupons db). code cp = cd \<and> is_active cp \<and>
        (expires_at cp = None \<or> (\<exists>t. expires_at cp = Some t \<and> now < t)))"
proof -
  have eq: "(case expires_at cp of None \<Rightarrow> True | Some t \<Rightarrow> now < t) \<longleftrightarrow>
      (expires_at cp = None \<or> (\<exists>t. expires_at cp = Some t \<and> now < t))" for cp :: coupon
    by (cases "expires_at cp") auto
  have ex: "(\<exists>v. find P xs = Some v) \<longleftrightarrow> (\<exists>x \<in> set xs. P x)"
    for P and xs :: "coupon list"
    by (induction xs) simp_all
  show ?thesis
    by (simp only: get_valid_coupon_by_code_def ex eq)
qed

lemma valid_coupon_SomeD:
  assumes "get_valid_coupon_by_code now db cd = Some v"
  shows "v \<in> set (coupons db) \<and> code v = cd \<and> is_active v \<and>
         (expires_at v = None \<or> (\<exists>t. expires_at v = Some t \<and> now < t))"
proof -
  from assms have "v \<in> set (coupons db) \<and> code v = cd \<and> is_active v \<and>
      (case expires_at v of None \<Rightarrow> True | Some t \<Rightarrow> now < t)"
    unfolding get_valid_coupon_by_code_def by (auto dest: find_SomeD)
  then show ?thesis by (cases "expires_at v") auto
qed




text \<open>
  C4, as amended.  For a checkout whose cart is not empty and whose attached
  coupon has been deactivated or has \<open>expires_at \<le> now\<close>,
  \<open>create_order_from_cart\<close> raises the coupon error and leaves the database
  (cart, stocks, orders) as it was.  Coupon codes are unique, as the schema
  declares.  The validity test is the one of \<open>get_valid_coupon_by_code\<close>: a
  coupon is returned exactly when some coupon has the code, is active, and
  has no expiry or one strictly after \<open>now\<close>, and the coupon returned is such
  a one.
\<close>

theorem checkout_invalid_coupon:
  assumes cart: "get_cart_by_user_id db (user_pk u) = Some c"
    and nonempty: "cart_lines db c \<noteq> []"
    and coupon: "cart_coupon db c = Some cp"
    and unique: "distinct (map code (coupons db))"
    and invalid: "\<not> is_active cp \<or> (\<exists>t. expires_at cp = Some t \<and> t \<le> now)"
  shows "create_order_from_cart now commit db u =
           (Inl (OrderCreationError CouponNoLongerValid 400), db) \<and>
         (\<forall>cd v. get_valid_coupon_by_code now db cd = Some v \<longrightarrow>
            v \<in> set (coupons db) \<and> code v = cd \<and> is_active v \<and>
            (expires_at v = None \<or> (\<exists>t. expires_at v = Some t \<and> now < t))) \<and>
         (\<forall>cd. (\<exists>v. get_valid_coupon_by_code now db cd = Some v) \<longleftrightarrow>
            (\<exists>cp \<in> set (coupons db). code cp = cd \<and> is_active cp \<and>
               (expires_at cp = None \<or> (\<exists>t. expires_at cp = Some t \<and> now < t))))"
proof -
  have cp_in: "cp \<in> set (coupons db)"
    using coupon by (auto simp: cart_coupon_def split: option.splits dest: find_SomeD)
  have none: "get_valid_coupon_by_code now db (code cp) = None"
  proof (rule ccontr)
    assume "get_valid_coupon_by_code now db (code cp) \<noteq> None"
    then obtain v where v: "get_valid_coupon_by_code now db (code cp) = Some v" by auto
    from valid_coupon_SomeD [OF v] have "v = cp"
      using unique_code [OF unique _ cp_in] by blast
    with valid_coupon_SomeD [OF v] invalid show False by auto
  qed
  have fails: "create_order_from_cart now commit db u =
           (Inl (OrderCreationError CouponNoLongerValid 400), db)"
    using cart nonempty coupon none by (simp add: create_order_from_cart_def Let_def)
  have sound: "\<forall>cd v. get_valid_coupon_by_code now db cd = Some v \<longrightarrow>
            v \<in> set (coupons db) \<and> code v = cd \<and> is_active v \<and>
            (expires_at v = None \<or> (\<exists>t. expires_at v = Some t \<and> now < t))"
    by (intro allI impI) (rule valid_coupon_SomeD)
  have complete: "\<forall>cd. (\<exists>v. get_valid_coupon_by_code now db cd = Some v) \<longleftrightarrow>
            (\<exists>cp \<in> set (coupons db). code cp = cd \<and> is_active cp \<and>
               (expires_at cp = None \<or> (\<exists>t. expires_at cp = Some t \<and> now < t)))"
    by (intro allI) (rule valid_coupon_iff)
  from fails sound complete show ?thesis by (intro conjI)
qed

theorem checkout_invalid_coupon_witness:
  "create_order_from_cart 100 Committed shop user8 =
     (Inl (OrderCreationError CouponNoLongerValid 400), shop)"
proof -
  let ?c = "\<lparr>cart_pk = 2, user_id = 8, coupon_id = Some 2\<rparr>"
  let ?cp = "\<lparr>coupon_pk = 2, code = ''NATAL10'', discount_percent = 10,
          expires_at = Some 50, is_active = True\<rparr>"
  have 1: "get_cart_by_user_id shop (user_pk user8) = Some ?c"
    by (simp add: shop_def user8_def get_cart_by_user_id_def)
  have 2: "cart_lines shop ?c \<noteq> []"
    by (simp add: shop_def cart_lines_def)
  have 3: "cart_coupon shop ?c = Some ?cp"
    by (simp add: shop_def cart_coupon_def)
  have 4: "distinct (map code (coupons shop))"
    by (simp add: shop_def)
  have 5: "\<not> is_active ?cp \<or> (\<exists>t. expires_at ?cp = Some t \<and> t \<le> 100)"
    by simp
  from checkout_invalid_coupon [OF 1 2 3 4 5] show ?thesis by (rule conjunct1)
qed


text \<open>
  C4 as stated fails on an empty cart: user 9 has an expired coupon attached
  and no lines, and the call raises the empty-cart error, not the coupon
  error.
\<close>

theorem checkout_empty_cart_counterexample:
  "get_cart_by_user_id shop (user_pk user9) = Some \<lparr>cart_pk = 3, user_id = 9, coupon_id = Some 2\<rparr> \<and>
   cart_coupon shop \<lparr>cart_pk = 3, user_id = 9, coupon_id = Some 2\<rparr> =
     Some \<lparr>coupon_pk = 2, code = ''NATAL10'', discount_percent = 10,
           expires_at = Some 50, is_active = True\<rparr> \<and>
   (50 :: int) \<le> 100 \<and>
   create_order_from_cart 100 Committed shop user9 = (Inl (OrderCreationError EmptyCart 400), shop) \<and>
   create_order_from_cart 100 Committed shop user9 \<noteq>
     (Inl (OrderCreationError CouponNoLongerValid 400), shop)"
  by (simp add: shop_def user9_def get_cart_by_user_id_def cart_lines_def cart_coupon_def
      create_order_from_cart_def)

section \<open>Adding to the cart\<close>

lemma find_NoneD: "find P xs = None \<Longrightarrow> x \<in> set xs \<Longrightarrow> \<not> P x"
  by (induction xs) (auto split: if_splits)

lemma update_first_keys:
  "(\<And>x. key (f x) = key x) \<Longrightarrow> map key (update_first P f xs) = map key xs"
  by (induction xs) auto

lemma update_first_unique:
  assumes "distinct (map key xs)" and "\<And>x. P x \<longleftrightarrow> key x = k"
  shows "update_first P f xs = map (\<lambda>x. if P x then f x else x) xs"
  using assms(1)
proof (induction xs)
  case Nil
  show ?case by simp
next
  case (Cons x xs)
  show ?case
  proof (cases "P x")
    case True
    then have "key x = k" using assms(2) by simp
    then have "\<forall>y \<in> set xs. \<not> P y" using Cons.prems assms(2) by (fastforce simp: image_iff)
    then have "map (\<lambda>x. if P x then f x else x) xs = xs" by (induction xs) auto
    with True show ?thesis by simp
  next
    case False
    then show ?thesis using Cons by simp
  qed
qed

text \<open>
  C6.  In a database with at most one cart line per product and cart,
  \<open>add_item_to_cart\<close> for an existing product merges the requested quantity
  into the line the cart already has for that product (every other line
  stays, no line is added), or appends a new line when there is none; the
  invariant holds again afterwards.  When the merged quantity exceeds the
  product's stock the call returns \<open>None\<close>, raising nothing, and the
  database is unchanged.
\<close>

theorem add_item_to_cart_merges:
  assumes inv: "one_line_per_product db"
    and product: "get_product db (item_product_id item) = Some p"
  shows "(case find (\<lambda>ci. cart_id ci = cid \<and> product_id ci = item_product_id item) (cart_items db) of
            Some ci \<Rightarrow>
              if stock p < quantity ci + item_quantity item
              then add_item_to_cart db cid item = (None, db)
              else \<exists>db'. add_item_to_cart db cid item =
                       (Some (ci\<lparr>quantity := quantity ci + item_quantity item\<rparr>), db') \<and>
                     cart_items db' =
                       map (\<lambda>x. if cart_id x = cid \<and> product_id x = item_product_id item
                                 then x\<lparr>quantity := quantity ci + item_quantity item\<rparr> else x)
                           (cart_items db) \<and>
                     one_line_per_product db'
          | None \<Rightarrow>
              if stock p < item_quantity item
              then add_item_to_cart db cid item = (None, db)
              else \<exists>db'. add_item_to_cart db cid item =
                       (Some \<lparr>cart_id = cid, product_id = item_product_id item,
                              quantity = item_quantity item\<rparr>, db') \<and>
                     cart_items db' =
                       cart_items db @ [\<lparr>cart_id = cid, product_id = item_product_id item,
                                         quantity = item_quantity item\<rparr>] \<and>
                     one_line_per_product db')"
proof -
  let ?same = "\<lambda>ci. cart_id ci = cid \<and> product_id ci = item_product_id item"
  let ?key = "\<lambda>ci. (cart_id ci, product_id ci)"
  have dist: "distinct (map ?key (cart_items db))"
    using inv by (simp add: one_line_per_product_def)
  show ?thesis
  proof (cases "find ?same (cart_items db)")
    case None
    have fresh: "(cid, item_product_id item) \<notin> set (map ?key (cart_items db))"
      using find_NoneD [OF None] by fastforce
    show ?thesis
      using None product dist fresh
      by (simp add: add_item_to_cart_def Let_def one_line_per_product_def)
  next
    case (Some ci)
    let ?f = "\<lambda>x. x\<lparr>quantity := quantity ci + item_quantity item\<rparr>"
    let ?g = "\<lambda>x. if ?same x then ?f x else x"
    define db' where "db' = db\<lparr>cart_items := map ?g (cart_items db)\<rparr>"
    have upd: "update_first ?same ?f (cart_items db) = map ?g (cart_items db)"
      by (rule update_first_unique [where key = ?key and k = "(cid, item_product_id item)"])
        (use dist in auto)
    have keys: "map ?key (map ?g xs) = map ?key xs" for xs
      by (induction xs) auto
    have lines: "cart_items db' = map ?g (cart_items db)"
      by (simp add: db'_def)
    have inv': "one_line_per_product db'"
      unfolding one_line_per_product_def lines keys by (rule dist)
    show ?thesis
    proof (cases "stock p < quantity ci + item_quantity item")
      case True
      then have "add_item_to_cart db cid item = (None, db)"
        using Some product by (simp add: add_item_to_cart_def Let_def)
      with True Some show ?thesis by simp
    next
      case False
      then have "add_item_to_cart db cid item = (Some (?f ci), db')"
        using Some product upd by (simp add: add_item_to_cart_def Let_def db'_def)
      with False Some lines inv' show ?thesis by auto
    qed
  qed
qed

theorem add_item_to_cart_merges_witness:
  "add_item_to_cart shop 1 \<lparr>item_product_id = 1, item_quantity = 9\<rparr> = (None, shop) \<and>
   fst (add_item_to_cart shop 1 \<lparr>item_product_id = 1, item_quantity = 3\<rparr>) =
     Some \<lparr>cart_id = 1, product_id = 1, quantity = 5\<rparr> \<and>
   cart_items (snd (add_item_to_cart shop 1 \<lparr>item_product_id = 1, item_quantity = 3\<rparr>)) =
     [\<lparr>cart_id = 1, product_id = 1, quantity = 5\<rparr>,
      \<lparr>cart_id = 2, product_id = 1, quantity = 1\<rparr>,
      \<lparr>cart_id = 2, product_id = 2, quantity = 5\<rparr>] \<and>
   one_line_per_product (snd (add_item_to_cart shop 1 \<lparr>item_product_id = 1, item_quantity = 3\<rparr>))"
proof -
  let ?p = "\<lparr>name = ''Camiseta'', price = 100, stock = 10, weight_kg = 3 / 10,
                 height_cm = 4, width_cm = 12, length_cm = 18\<rparr>"
  have inv: "one_line_per_product shop"
    by (simp add: one_line_per_product_def shop_def)
  have p: "get_product shop (item_product_id \<lparr>item_product_id = 1, item_quantity = q\<rparr>) = Some ?p" for q
    by (simp add: get_product_def shop_def)
  have f: "find (\<lambda>ci. cart_id ci = 1 \<and> product_id ci = item_product_id \<lparr>item_product_id = 1, item_quantity = q\<rparr>)
             (cart_items shop) = Some \<lparr>cart_id = 1, product_id = 1, quantity = 2\<rparr>" for q
    by (simp add: shop_def)
  from add_item_to_cart_merges [OF inv p, of 9 1]
  have a: "add_item_to_cart shop 1 \<lparr>item_product_id = 1, item_quantity = 9\<rparr> = (None, shop)"
    unfolding f by simp
  from add_item_to_cart_merges [OF inv p, of 3 1]
  obtain db' where b: "add_item_to_cart shop 1 \<lparr>item_product_id = 1, item_quantity = 3\<rparr> =
       (Some \<lparr>cart_id = 1, product_id = 1, quantity = 5\<rparr>, db')"
    and c: "cart_items db' =
       map (\<lambda>x. if cart_id x = 1 \<and> product_id x = 1 then x\<lparr>quantity := 5\<rparr> else x) (cart_items shop)"
    and d: "one_line_per_product db'"
    unfolding f by auto
  have "cart_items db' =
     [\<lparr>cart_id = 1, product_id = 1, quantity = 5\<rparr>,
      \<lparr>cart_id = 2, product_id = 1, quantity = 1\<rparr>,
      \<lparr>cart_id = 2, product_id = 2, quantity = 5\<rparr>]"
    unfolding c by (simp add: shop_def)
  with a b d show ?thesis by simp
qed

section \<open>Deleting a product\<close>




section \<open>The payment webhook\<close>




lemma find_update_first:
  "find P xs = Some x \<Longrightarrow> P (f x) \<Longrightarrow> find P (update_first P f xs) = Some (f x)"
  by (induction xs) (auto split: if_splits)








section \<open>Creating a checkout session\<close>

text \<open>
  C8, as amended.  \<open>create_checkout_session\<close> fails with 404 when the order
  does not exist and with 400 when its status is \<open>paid\<close>.  When the
  external session was created with a URL: if the session carries no payment
  intent string, the URL is returned; if it does and the commit succeeds,
  the URL is returned and the order stores the payment intent; if the commit
  fails, the call fails with a 500 error and the URL is not returned.
\<close>

theorem checkout_session_outcomes:
  "(get_order_by_id db oid = None \<longrightarrow>
      create_checkout_session stripe_create commit db oid =
        (Inl (HTTPException 404 ''Order not found''), db)) \<and>
   (\<forall>ord. get_order_by_id db oid = Some ord \<and> status ord = ''paid'' \<longrightarrow>
      create_checkout_session stripe_create commit db oid =
        (Inl (HTTPException 400 ''Order has already been paid.''), db)) \<and>
   (\<forall>ord u pi. get_order_by_id db oid = Some ord \<and> status ord \<noteq> ''paid'' \<and>
        stripe_create (line_items db ord) = StripeSession (Some u) pi \<and> u \<noteq> [] \<longrightarrow>
      (case pi of
         None \<Rightarrow> create_checkout_session stripe_create commit db oid = (Inr u, db)
       | Some pi_id \<Rightarrow>
           (case commit of
              Committed \<Rightarrow>
                fst (create_checkout_session stripe_create commit db oid) = Inr u \<and>
                get_order_by_id (snd (create_checkout_session stripe_create commit db oid)) oid =
                  Some (ord\<lparr>payment_intent_id := Some pi_id\<rparr>)
            | CommitFailed msg \<Rightarrow>
                create_checkout_session stripe_create commit db oid =
                  (Inl (HTTPException 500 (''An unexpected error occurred: '' @ msg)), db))))"
proof (intro conjI allI impI)
  assume "get_order_by_id db oid = None"
  then show "create_checkout_session stripe_create commit db oid =
        (Inl (HTTPException 404 ''Order not found''), db)"
    by (simp add: create_checkout_session_def)
next
  fix ord
  assume "get_order_by_id db oid = Some ord \<and> status ord = ''paid''"
  then show "create_checkout_session stripe_create commit db oid =
        (Inl (HTTPException 400 ''Order has already been paid.''), db)"
    by (simp add: create_checkout_session_def)
next
  fix ord u pi
  assume a: "get_order_by_id db oid = Some ord \<and> status ord \<noteq> ''paid'' \<and>
        stripe_create (line_items db ord) = StripeSession (Some u) pi \<and> u \<noteq> []"
  then have found: "find (\<lambda>ord. order_pk ord = oid) (orders db) = Some ord"
    by (simp add: get_order_by_id_def)
  then have pk: "order_pk ord = oid"
    using find_SomeD [OF found] by simp
  have upd: "find (\<lambda>ord. order_pk ord = oid)
        (update_first (\<lambda>ord. order_pk ord = oid) (\<lambda>ord. ord\<lparr>payment_intent_id := Some x\<rparr>) (orders db)) =
      Some (ord\<lparr>payment_intent_id := Some x\<rparr>)" for x
    by (rule find_update_first [OF found]) (simp add: pk)
  show "case pi of
         None \<Rightarrow> create_checkout_session stripe_create commit db oid = (Inr u, db)
       | Some pi_id \<Rightarrow>
           (case commit of
              Committed \<Rightarrow>
                fst (create_checkout_session stripe_create commit db oid) = Inr u \<and>
                get_order_by_id (snd (create_checkout_session stripe_create commit db oid)) oid =
                  Some (ord\<lparr>payment_intent_id := Some pi_id\<rparr>)
            | CommitFailed msg \<Rightarrow>
                create_checkout_session stripe_create commit db oid =
                  (Inl (HTTPException 500 (''An unexpected error occurred: '' @ msg)), db))"
    using a upd
    by (simp add: create_checkout_session_def get_order_by_id_def
        split: option.splits commit_result.splits)
qed

theorem checkout_session_outcomes_witness:
  "create_checkout_session stripe_ok Committed shop 999 =
     (Inl (HTTPException 404 ''Order not found''), shop) \<and>
   create_checkout_session stripe_ok Committed shop 3 =
     (Inl (HTTPException 400 ''Order has already been paid.''), shop) \<and>
   fst (create_checkout_session stripe_ok Committed shop 2) =
     Inr ''https://checkout.stripe.com/pay/cs_test'' \<and>
   map payment_intent_id (orders (snd (create_checkout_session stripe_ok Committed shop 2))) =
     [Some ''pi_1'', Some ''pi_test'', Some ''pi_3'']"
proof -
  have 1: "get_order_by_id shop 999 = None"
    by (simp add: get_order_by_id_def shop_def)
  have 3: "get_order_by_id shop 3 = Some (orders shop ! 2) \<and> status (orders shop ! 2) = ''paid''"
    by (simp add: get_order_by_id_def shop_def)
  from checkout_session_outcomes [of shop 999 stripe_ok Committed] 1
  have a: "create_checkout_session stripe_ok Committed shop 999 =
     (Inl (HTTPException 404 ''Order not found''), shop)"
    by blast
  from checkout_session_outcomes [of shop 3 stripe_ok Committed] 3
  have b: "create_checkout_session stripe_ok Committed shop 3 =
     (Inl (HTTPException 400 ''Order has already been paid.''), shop)"
    by blast
  have c: "fst (create_checkout_session stripe_ok Committed shop 2) =
     Inr ''https://checkout.stripe.com/pay/cs_test'' \<and>
   map payment_intent_id (orders (snd (create_checkout_session stripe_ok Committed shop 2))) =
     [Some ''pi_1'', Some ''pi_test'', Some ''pi_3'']"
    by (simp add: create_checkout_session_def get_order_by_id_def stripe_ok_def shop_def)
  from a b c show ?thesis by simp
qed

text \<open>
  C8 as stated fails when the payment identifier cannot be persisted: the
  session exists, the commit fails, and the caller gets the 500 error.
\<close>

theorem checkout_session_commit_failure_counterexample:
  "create_checkout_session stripe_ok (CommitFailed ''connection lost'') shop 2 =
     (Inl (HTTPException 500 ''An unexpected error occurred: connection lost''), shop)"
  by (simp add: create_checkout_session_def get_order_by_id_def stripe_ok_def shop_def)

end
